theory Spec2Isabelle
  imports Main
begin

section \<open>The home window of SlideApp\<close>

text \<open>
  A shallow embedding of \<^verbatim>\<open>src/HomeWindow.h\<close> and \<^verbatim>\<open>src/HomeWindow.cpp\<close>.
  The window owns five widgets through member pointers, all initialised to
  \<^verbatim>\<open>nullptr\<close>; the constructor runs \<^verbatim>\<open>setupUi\<close> and
  \<^verbatim>\<open>applyStyles\<close>. A member pointer is an \<open>option\<close> (\<open>None\<close> is
  \<^verbatim>\<open>nullptr\<close>), and a call through a null pointer is the error value
  \<open>NullPointer\<close>, so that every function of the source that dereferences a member is a
  function into \<open>error + HomeWindow\<close>.

  Of the toolkit's widgets only the properties the source sets or that decide a click are
  kept: a button's text, object name, checkable and checked flags and its own style sheet;
  a line edit's object name, text and placeholder text. Sizes, margins, layouts and labels
  are geometry and are left out. A \<^verbatim>\<open>QString\<close> is a \<open>string\<close>, \<^verbatim>\<open>+\<close> on
  it is \<open>@\<close>, \<^verbatim>\<open>isEmpty()\<close> is \<open>= []\<close>. A line edit stores the text it is given;
  the toolkit's own length limit on a line edit (32767 characters unless changed, and the
  source does not change it) is not part of the model.

  Member names lose their trailing underscore: \<open>researcherButton\<close> is
  \<^verbatim>\<open>researcherButton_\<close>, and so on.
\<close>

subsection \<open>Widgets\<close>

datatype error = NullPointer

record QPushButton =
  buttonText :: string
  objectName :: string
  checkable :: bool
  checked :: bool
  styleSheet :: string

record QLineEdit =
  editObjectName :: string
  editText :: string
  placeholderText :: string

text \<open>The three push buttons and the two line edits, named by the member that points to them.\<close>

datatype Button = ResearcherButton | AdminButton | BeginButton

datatype Field = UserEdit | OutputDirEdit

record QButtonGroup =
  exclusive :: bool
  members :: "Button list"

text \<open>The two private slots of the window.\<close>

datatype Slot = SetModeResearcher | SetModeAdmin

record HomeWindow =
  windowTitle :: string
  windowStyleSheet :: string
  researcherButton :: "QPushButton option"
  adminButton :: "QPushButton option"
  userEdit :: "QLineEdit option"
  outputDirEdit :: "QLineEdit option"
  beginButton :: "QPushButton option"
  modeGroup :: "QButtonGroup option"
  connections :: "(Button \<times> Slot) list"

text \<open>
  \<^verbatim>\<open>new QPushButton(text, this)\<close>: not checkable, not checked, no object name, no
  style sheet of its own. \<^verbatim>\<open>new QLineEdit(this)\<close>: no text.
  \<^verbatim>\<open>new QButtonGroup(this)\<close>: exclusive, no buttons.
\<close>

definition new_QPushButton :: "string \<Rightarrow> QPushButton" where
  "new_QPushButton t =
     \<lparr>buttonText = t, objectName = [], checkable = False, checked = False, styleSheet = []\<rparr>"

definition new_QLineEdit :: QLineEdit where
  "new_QLineEdit = \<lparr>editObjectName = [], editText = [], placeholderText = []\<rparr>"

definition new_QButtonGroup :: QButtonGroup where
  "new_QButtonGroup = \<lparr>exclusive = True, members = []\<rparr>"

text \<open>The members as the header initialises them, before \<^verbatim>\<open>setupUi\<close> runs.\<close>

definition nullWindow :: HomeWindow where
  "nullWindow =
     \<lparr>windowTitle = [], windowStyleSheet = [],
      researcherButton = None, adminButton = None, userEdit = None, outputDirEdit = None,
      beginButton = None, modeGroup = None, connections = []\<rparr>"

subsection \<open>Sequencing and member access\<close>

definition seq :: "error + 'a \<Rightarrow> ('a \<Rightarrow> error + 'b) \<Rightarrow> error + 'b" where
  "seq m f = (case m of Inl e \<Rightarrow> Inl e | Inr x \<Rightarrow> f x)"

fun button :: "Button \<Rightarrow> HomeWindow \<Rightarrow> QPushButton option" where
  "button ResearcherButton w = researcherButton w"
| "button AdminButton w = adminButton w"
| "button BeginButton w = beginButton w"

fun storeButton :: "Button \<Rightarrow> QPushButton \<Rightarrow> HomeWindow \<Rightarrow> HomeWindow" where
  "storeButton ResearcherButton x w = w\<lparr>researcherButton := Some x\<rparr>"
| "storeButton AdminButton x w = w\<lparr>adminButton := Some x\<rparr>"
| "storeButton BeginButton x w = w\<lparr>beginButton := Some x\<rparr>"

fun field :: "Field \<Rightarrow> HomeWindow \<Rightarrow> QLineEdit option" where
  "field UserEdit w = userEdit w"
| "field OutputDirEdit w = outputDirEdit w"

fun storeField :: "Field \<Rightarrow> QLineEdit \<Rightarrow> HomeWindow \<Rightarrow> HomeWindow" where
  "storeField UserEdit x w = w\<lparr>userEdit := Some x\<rparr>"
| "storeField OutputDirEdit x w = w\<lparr>outputDirEdit := Some x\<rparr>"

text \<open>A setter called through a member pointer: the null pointer is the error.\<close>

definition onButton ::
  "Button \<Rightarrow> (QPushButton \<Rightarrow> QPushButton) \<Rightarrow> HomeWindow \<Rightarrow> error + HomeWindow" where
  "onButton b f w =
     (case button b w of None \<Rightarrow> Inl NullPointer | Some x \<Rightarrow> Inr (storeButton b (f x) w))"

definition onField ::
  "Field \<Rightarrow> (QLineEdit \<Rightarrow> QLineEdit) \<Rightarrow> HomeWindow \<Rightarrow> error + HomeWindow" where
  "onField e f w =
     (case field e w of None \<Rightarrow> Inl NullPointer | Some x \<Rightarrow> Inr (storeField e (f x) w))"

subsection \<open>The toolkit's setters\<close>

definition setCheckable :: "Button \<Rightarrow> bool \<Rightarrow> HomeWindow \<Rightarrow> error + HomeWindow" where
  "setCheckable b c = onButton b (\<lambda>x. x\<lparr>checkable := c\<rparr>)"

definition setObjectName :: "Button \<Rightarrow> string \<Rightarrow> HomeWindow \<Rightarrow> error + HomeWindow" where
  "setObjectName b n = onButton b (\<lambda>x. x\<lparr>objectName := n\<rparr>)"

definition setStyleSheet :: "Button \<Rightarrow> string \<Rightarrow> HomeWindow \<Rightarrow> error + HomeWindow" where
  "setStyleSheet b s = onButton b (\<lambda>x. x\<lparr>styleSheet := s\<rparr>)"

definition setEditObjectName :: "Field \<Rightarrow> string \<Rightarrow> HomeWindow \<Rightarrow> error + HomeWindow" where
  "setEditObjectName e n = onField e (\<lambda>x. x\<lparr>editObjectName := n\<rparr>)"

definition setPlaceholderText :: "Field \<Rightarrow> string \<Rightarrow> HomeWindow \<Rightarrow> error + HomeWindow" where
  "setPlaceholderText e t = onField e (\<lambda>x. x\<lparr>placeholderText := t\<rparr>)"

definition setText :: "Field \<Rightarrow> string \<Rightarrow> HomeWindow \<Rightarrow> error + HomeWindow" where
  "setText e t = onField e (\<lambda>x. x\<lparr>editText := t\<rparr>)"

text \<open>
  The buttons that share an exclusive group with \<open>b\<close>, and unchecking a list of buttons.
\<close>

definition inExclusiveGroup :: "Button \<Rightarrow> HomeWindow \<Rightarrow> bool" where
  "inExclusiveGroup b w =
     (case modeGroup w of None \<Rightarrow> False | Some g \<Rightarrow> exclusive g \<and> b \<in> set (members g))"

definition groupOthers :: "Button \<Rightarrow> HomeWindow \<Rightarrow> Button list" where
  "groupOthers b w =
     (case modeGroup w of
        None \<Rightarrow> []
      | Some g \<Rightarrow> if exclusive g \<and> b \<in> set (members g)
                  then filter (\<lambda>x. x \<noteq> b) (members g) else [])"

fun uncheckAll :: "Button list \<Rightarrow> HomeWindow \<Rightarrow> HomeWindow" where
  "uncheckAll [] w = w"
| "uncheckAll (b # bs) w =
     uncheckAll bs
       (case button b w of None \<Rightarrow> w | Some x \<Rightarrow> storeButton b (x\<lparr>checked := False\<rparr>) w)"

text \<open>
  \<^verbatim>\<open>QAbstractButton::setChecked\<close>: nothing happens on a button that is not checkable
  or already in the requested state; the checked button of an exclusive group cannot be
  unchecked; checking a button of an exclusive group unchecks the group's other buttons.
\<close>

definition setChecked :: "Button \<Rightarrow> bool \<Rightarrow> HomeWindow \<Rightarrow> error + HomeWindow" where
  "setChecked b c w =
     (case button b w of
        None \<Rightarrow> Inl NullPointer
      | Some x \<Rightarrow>
          if \<not> checkable x \<or> checked x = c then Inr w
          else if \<not> c \<and> inExclusiveGroup b w then Inr w
          else let w1 = storeButton b (x\<lparr>checked := c\<rparr>) w
               in Inr (if c then uncheckAll (groupOthers b w1) w1 else w1))"

text \<open>
  \<^verbatim>\<open>QButtonGroup::addButton\<close>: the button joins the group; a button that is already
  checked when it joins an exclusive group unchecks the others.
\<close>

definition addButton :: "Button \<Rightarrow> HomeWindow \<Rightarrow> error + HomeWindow" where
  "addButton b w =
     (case modeGroup w of
        None \<Rightarrow> Inl NullPointer
      | Some g \<Rightarrow>
          (case button b w of
             None \<Rightarrow> Inl NullPointer
           | Some x \<Rightarrow>
               let w1 = w\<lparr>modeGroup := Some (g\<lparr>members := members g @ [b]\<rparr>)\<rparr>
               in Inr (if exclusive g \<and> checked x then uncheckAll (groupOthers b w1) w1
                       else w1)))"

definition connect :: "Button \<Rightarrow> Slot \<Rightarrow> HomeWindow \<Rightarrow> HomeWindow" where
  "connect b s w = w\<lparr>connections := connections w @ [(b, s)]\<rparr>"

subsection \<open>Style sheets of the mode buttons\<close>

text \<open>
  The three style sheets that \<^verbatim>\<open>setModeResearcher\<close> and \<^verbatim>\<open>setModeAdmin\<close>
  install, literal by literal as the source concatenates them. The grey one is the same
  text in both functions.
\<close>

definition researcherActiveStyle :: string where
  "researcherActiveStyle =
     ''QPushButton {'' @
     ''  background: #84F28A;'' @
     ''  color: #000000;'' @
     ''  border: none;'' @
     ''  border-radius: 11px;'' @
     ''  padding: 10px 18px;'' @
     ''  font-size: 25px;'' @
     ''}''"

definition adminActiveStyle :: string where
  "adminActiveStyle =
     ''QPushButton {'' @
     ''  background: #F26565;'' @
     ''  color: #000000;'' @
     ''  border: none;'' @
     ''  border-radius: 11px;'' @
     ''  padding: 10px 18px;'' @
     ''  font-size: 25px;'' @
     ''}''"

definition inactiveStyle :: string where
  "inactiveStyle =
     ''QPushButton {'' @
     ''  background: #d9d9d9;'' @
     ''  color: #111111;'' @
     ''  border: none;'' @
     ''  border-radius: 11px;'' @
     ''  padding: 10px 18px;'' @
     ''  font-size: 25px;'' @
     ''}''"

text \<open>The window's own style sheet, installed by \<^verbatim>\<open>applyStyles\<close>.\<close>

definition mainStyleSheet :: string where
  "mainStyleSheet =
     ''QMainWindow { background: #000000; }'' @
     ''QWidget { color: #f2f2f2; font-family: 'Helvetica Neue'; }'' @
     ''QLabel#titleLabel { font-size: 78px; font-weight: 300; letter-spacing: 1px; }'' @
     ''QLabel#fieldLabel { font-size: 42px; font-weight: 400; }'' @
     ''QLineEdit#fieldInput {'' @
     ''  background: transparent;'' @
     ''  border: none;'' @
     ''  color: #ffffff;'' @
     ''  font-size: 42px;'' @
     ''  font-weight: 400;'' @
     ''  padding: 0;'' @
     ''}'' @
     ''QPushButton {'' @
     ''  background: #d9d9d9;'' @
     ''  color: #111111;'' @
     ''  border: none;'' @
     ''  border-radius: 11px;'' @
     ''  padding: 10px 18px;'' @
     ''  font-size: 25px;'' @
     ''}'' @
     ''QPushButton:hover { background: #ececec; }'' @
     ''QPushButton:pressed { background: #bbbbbb; }'' @
     ''QPushButton#beginButton {'' @
     ''  background: #84F28A;'' @
     ''  color: #000000;'' @
     ''  border-radius: 36px;'' @
     ''  font-size: 58px;'' @
     ''  font-weight: 500;'' @
     ''  padding-bottom: 8px;'' @
     ''}'' @
     ''QPushButton#beginButton:hover { background: #95f69a; }'' @
     ''QPushButton#beginButton:pressed { background: #76e87d; }''"

subsection \<open>The window's functions\<close>

definition setModeResearcher :: "HomeWindow \<Rightarrow> error + HomeWindow" where
  "setModeResearcher w =
     seq (setChecked ResearcherButton True w) (\<lambda>w.
     seq (setStyleSheet ResearcherButton researcherActiveStyle w) (\<lambda>w.
     setStyleSheet AdminButton inactiveStyle w))"

definition setModeAdmin :: "HomeWindow \<Rightarrow> error + HomeWindow" where
  "setModeAdmin w =
     seq (setChecked AdminButton True w) (\<lambda>w.
     seq (setStyleSheet AdminButton adminActiveStyle w) (\<lambda>w.
     setStyleSheet ResearcherButton inactiveStyle w))"

definition applyStyles :: "HomeWindow \<Rightarrow> HomeWindow" where
  "applyStyles w = w\<lparr>windowStyleSheet := mainStyleSheet\<rparr>"

text \<open>
  \<^verbatim>\<open>setupUi\<close>, in the order of the source. Its two platform lookups,
  \<^verbatim>\<open>QStandardPaths::writableLocation(QStandardPaths::DownloadLocation)\<close> and
  \<^verbatim>\<open>QDir::homePath()\<close>, are the parameters \<open>downloadLocation\<close> and
  \<open>homePath\<close>.
\<close>

definition setupUi :: "string \<Rightarrow> string \<Rightarrow> HomeWindow \<Rightarrow> error + HomeWindow" where
  "setupUi downloadLocation homePath w =
     (let w = w\<lparr>windowTitle := ''SlideApp''\<rparr>;
          w = w\<lparr>researcherButton := Some (new_QPushButton ''Researcher Mode'')\<rparr>
      in seq (setCheckable ResearcherButton True w) (\<lambda>w.
      let w = w\<lparr>adminButton := Some (new_QPushButton ''Admin Mode'')\<rparr>
      in seq (setCheckable AdminButton True w) (\<lambda>w.
      let w = w\<lparr>modeGroup := Some (new_QButtonGroup\<lparr>exclusive := True\<rparr>)\<rparr>
      in seq (addButton ResearcherButton w) (\<lambda>w.
      seq (addButton AdminButton w) (\<lambda>w.
      let w = w\<lparr>userEdit := Some new_QLineEdit\<rparr>
      in seq (setEditObjectName UserEdit ''fieldInput'' w) (\<lambda>w.
      seq (setPlaceholderText UserEdit [] w) (\<lambda>w.
      let w = w\<lparr>outputDirEdit := Some new_QLineEdit\<rparr>
      in seq (setEditObjectName OutputDirEdit ''fieldInput'' w) (\<lambda>w.
      seq (setPlaceholderText OutputDirEdit [] w) (\<lambda>w.
      let downloads = downloadLocation;
          downloads = (if downloads = [] then homePath @ ''/Downloads'' else downloads)
      in seq (setText OutputDirEdit downloads w) (\<lambda>w.
      let w = w\<lparr>beginButton := Some (new_QPushButton ''Begin'')\<rparr>
      in seq (setObjectName BeginButton ''beginButton'' w) (\<lambda>w.
      seq (setChecked ResearcherButton True w) (\<lambda>w.
      seq (setModeResearcher w) (\<lambda>w.
      let w = connect ResearcherButton SetModeResearcher w;
          w = connect AdminButton SetModeAdmin w
      in Inr w)))))))))))))"

text \<open>The constructor \<^verbatim>\<open>HomeWindow::HomeWindow\<close>.\<close>

definition HomeWindow_new :: "string \<Rightarrow> string \<Rightarrow> error + HomeWindow" where
  "HomeWindow_new downloadLocation homePath =
     seq (setupUi downloadLocation homePath nullWindow) (\<lambda>w. Inr (applyStyles w))"

subsection \<open>User input\<close>

text \<open>
  What the user can do to the window: click one of the three buttons, or edit one of the
  two line edits, which leaves the edit holding the text \<open>t\<close>.

  A click on a checkable button first asks for the opposite check state and then emits
  \<^verbatim>\<open>clicked\<close>; a click on any other button only emits the signal. The signal runs
  the slots connected to that button, in the order of connection. The source connects
  \<^verbatim>\<open>researcherButton_\<close> and \<^verbatim>\<open>adminButton_\<close> and nothing else.
\<close>

fun runSlot :: "Slot \<Rightarrow> HomeWindow \<Rightarrow> error + HomeWindow" where
  "runSlot SetModeResearcher w = setModeResearcher w"
| "runSlot SetModeAdmin w = setModeAdmin w"

fun runSlots :: "Slot list \<Rightarrow> HomeWindow \<Rightarrow> error + HomeWindow" where
  "runSlots [] w = Inr w"
| "runSlots (s # ss) w = seq (runSlot s w) (runSlots ss)"

definition clickedSlots :: "Button \<Rightarrow> HomeWindow \<Rightarrow> Slot list" where
  "clickedSlots b w = map snd (filter (\<lambda>c. fst c = b) (connections w))"

definition click :: "Button \<Rightarrow> HomeWindow \<Rightarrow> error + HomeWindow" where
  "click b w =
     (case button b w of
        None \<Rightarrow> Inl NullPointer
      | Some x \<Rightarrow>
          seq (if checkable x then setChecked b (\<not> checked x) w else Inr w)
              (\<lambda>w. runSlots (clickedSlots b w) w))"

datatype Event = Click Button | Edit Field string

fun event :: "Event \<Rightarrow> HomeWindow \<Rightarrow> error + HomeWindow" where
  "event (Click b) w = click b w"
| "event (Edit e t) w = setText e t w"

fun events :: "Event list \<Rightarrow> HomeWindow \<Rightarrow> error + HomeWindow" where
  "events [] w = Inr w"
| "events (e # es) w = seq (event e w) (events es)"

text \<open>Direct calls of the two mode functions, one after the other.\<close>

datatype ModeCall = SelectResearcher | SelectAdmin

fun modeCall :: "ModeCall \<Rightarrow> HomeWindow \<Rightarrow> error + HomeWindow" where
  "modeCall SelectResearcher w = setModeResearcher w"
| "modeCall SelectAdmin w = setModeAdmin w"

fun modeCalls :: "ModeCall list \<Rightarrow> HomeWindow \<Rightarrow> error + HomeWindow" where
  "modeCalls [] w = Inr w"
| "modeCalls (c # cs) w = seq (modeCall c w) (modeCalls cs)"

subsection \<open>The form state\<close>

text \<open>
  The window has no variable for the mode: the mode is which of the two checkable buttons
  is checked, and there is none when both or neither are. The user name and the output
  directory are the texts of the two line edits.
\<close>

datatype Mode = Researcher | Admin

definition mode :: "HomeWindow \<Rightarrow> Mode option" where
  "mode w =
     (case (researcherButton w, adminButton w) of
        (Some r, Some a) \<Rightarrow>
          if checked r \<and> \<not> checked a then Some Researcher
          else if checked a \<and> \<not> checked r then Some Admin
          else None
      | _ \<Rightarrow> None)"

definition userName :: "HomeWindow \<Rightarrow> string option" where
  "userName w = map_option editText (userEdit w)"

definition outputDirectory :: "HomeWindow \<Rightarrow> string option" where
  "outputDirectory w = map_option editText (outputDirEdit w)"

text \<open>
  A mode button is marked active when it is checked and carries a style sheet other than
  the grey one.
\<close>

definition markedActive :: "QPushButton option \<Rightarrow> bool" where
  "markedActive p =
     (case p of None \<Rightarrow> False | Some x \<Rightarrow> checked x \<and> styleSheet x \<noteq> inactiveStyle)"

definition markedInactive :: "QPushButton option \<Rightarrow> bool" where
  "markedInactive p =
     (case p of None \<Rightarrow> False | Some x \<Rightarrow> \<not> checked x \<and> styleSheet x = inactiveStyle)"

text \<open>
  What an event hands to code outside the window. Neither slot calls anything but
  \<^verbatim>\<open>setChecked\<close> and \<^verbatim>\<open>setStyleSheet\<close> on the window's own buttons, so a
  slot hands over nothing, and an event hands over what its slots do.
\<close>

fun slotHandsOver :: "Slot \<Rightarrow> HomeWindow \<Rightarrow> (Mode option \<times> string option \<times> string option) list" where
  "slotHandsOver SetModeResearcher w = []"
| "slotHandsOver SetModeAdmin w = []"

fun handsOver :: "Event \<Rightarrow> HomeWindow \<Rightarrow> (Mode option \<times> string option \<times> string option) list" where
  "handsOver (Click b) w = concat (map (\<lambda>s. slotHandsOver s w) (clickedSlots b w))"
| "handsOver (Edit e t) w = []"

subsection \<open>Constructed windows\<close>

text \<open>
  The shape every window has once its constructor has returned: all five members point to
  widgets, the two mode buttons are checkable and form the exclusive group, at most one of
  them is checked, the begin button is not checkable, and the two connections of
  \<^verbatim>\<open>setupUi\<close> are in place.
\<close>

definition constructed :: "HomeWindow \<Rightarrow> bool" where
  "constructed w =
     ((case (researcherButton w, adminButton w) of
         (Some r, Some a) \<Rightarrow> checkable r \<and> checkable a \<and> \<not> (checked r \<and> checked a)
       | _ \<Rightarrow> False) \<and>
      (case beginButton w of Some b \<Rightarrow> \<not> checkable b | None \<Rightarrow> False) \<and>
      userEdit w \<noteq> None \<and> outputDirEdit w \<noteq> None \<and>
      modeGroup w = Some \<lparr>exclusive = True, members = [ResearcherButton, AdminButton]\<rparr> \<and>
      connections w = [(ResearcherButton, SetModeResearcher), (AdminButton, SetModeAdmin)])"

text \<open>The windows the program can be in: a constructed one, after any events.\<close>

inductive reachable :: "HomeWindow \<Rightarrow> bool" where
  reachable_new: "HomeWindow_new d h = Inr w \<Longrightarrow> reachable w"
| reachable_event: "reachable w \<Longrightarrow> event e w = Inr w' \<Longrightarrow> reachable w'"

subsection \<open>Runs of the program\<close>

text \<open>
  A run constructs the window and then handles the user's events in order. The form state
  is what a collaborator would be given; \<open>handedOver\<close> collects what a run hands over.
\<close>

definition run :: "string \<Rightarrow> string \<Rightarrow> Event list \<Rightarrow> error + HomeWindow" where
  "run downloadLocation homePath es = seq (HomeWindow_new downloadLocation homePath) (events es)"

definition formState :: "HomeWindow \<Rightarrow> Mode option \<times> string option \<times> string option" where
  "formState w = (mode w, userName w, outputDirectory w)"

fun handedOverFrom ::
  "Event list \<Rightarrow> HomeWindow \<Rightarrow> (Mode option \<times> string option \<times> string option) list" where
  "handedOverFrom [] w = []"
| "handedOverFrom (e # es) w =
     handsOver e w @ (case event e w of Inl _ \<Rightarrow> [] | Inr w' \<Rightarrow> handedOverFrom es w')"

definition handedOver ::
  "string \<Rightarrow> string \<Rightarrow> Event list \<Rightarrow> (Mode option \<times> string option \<times> string option) list" where
  "handedOver downloadLocation homePath es =
     (case HomeWindow_new downloadLocation homePath of
        Inl _ \<Rightarrow> []
      | Inr w \<Rightarrow> handedOverFrom es w)"

text \<open>What the two mode buttons show: the mode and the style sheet of each.\<close>

definition modeView :: "HomeWindow \<Rightarrow> Mode option \<times> string option \<times> string option" where
  "modeView w =
     (mode w, map_option styleSheet (researcherButton w), map_option styleSheet (adminButton w))"

text \<open>Exactly one of the two mode buttons is marked active, and the other is inactive.\<close>

definition exactlyOneActive :: "HomeWindow \<Rightarrow> bool" where
  "exactlyOneActive w =
     ((markedActive (researcherButton w) \<and> markedInactive (adminButton w)) \<or>
      (markedActive (adminButton w) \<and> markedInactive (researcherButton w)))"

text \<open>What a mode call leaves on the two mode buttons.\<close>

fun viewAfter :: "ModeCall \<Rightarrow> Mode option \<times> string option \<times> string option" where
  "viewAfter SelectResearcher = (Some Researcher, Some researcherActiveStyle, Some inactiveStyle)"
| "viewAfter SelectAdmin = (Some Admin, Some inactiveStyle, Some adminActiveStyle)"

subsection \<open>The platform\<close>

text \<open>
  What the constructor can ask the platform. \<^verbatim>\<open>QStandardPaths::writableLocation\<close>
  answers for every standard location, and \<^verbatim>\<open>QDir::homePath()\<close> gives the home
  path; whatever else the platform holds is the record's extension. The constructor on a
  platform makes the two lookups of \<^verbatim>\<open>setupUi\<close>,
  \<^verbatim>\<open>writableLocation(QStandardPaths::DownloadLocation)\<close> and
  \<^verbatim>\<open>QDir::homePath()\<close>, and no other.
\<close>

datatype StandardLocation =
    DesktopLocation | DocumentsLocation | FontsLocation | ApplicationsLocation
  | MusicLocation | MoviesLocation | PicturesLocation | TempLocation | HomeLocation
  | AppLocalDataLocation | CacheLocation | GenericDataLocation | RuntimeLocation
  | ConfigLocation | DownloadLocation | GenericCacheLocation | GenericConfigLocation
  | AppDataLocation | AppConfigLocation

record Platform =
  writableLocation :: "StandardLocation \<Rightarrow> string"
  homePath :: string

definition HomeWindow_on :: "'a Platform_scheme \<Rightarrow> error + HomeWindow" where
  "HomeWindow_on p = HomeWindow_new (writableLocation p DownloadLocation) (homePath p)"

section \<open>Basic facts\<close>

lemmas setter_defs = setCheckable_def setObjectName_def setStyleSheet_def setEditObjectName_def
  setPlaceholderText_def setText_def onButton_def onField_def

lemma styles_distinct:
  "researcherActiveStyle \<noteq> inactiveStyle" "adminActiveStyle \<noteq> inactiveStyle"
  "adminActiveStyle \<noteq> researcherActiveStyle"
  by (simp_all add: researcherActiveStyle_def adminActiveStyle_def inactiveStyle_def)

lemma HomeWindow_new_result:
  "HomeWindow_new d h = Inr
     \<lparr>windowTitle = ''SlideApp'', windowStyleSheet = mainStyleSheet,
      researcherButton = Some \<lparr>buttonText = ''Researcher Mode'', objectName = [],
        checkable = True, checked = True, styleSheet = researcherActiveStyle\<rparr>,
      adminButton = Some \<lparr>buttonText = ''Admin Mode'', objectName = [],
        checkable = True, checked = False, styleSheet = inactiveStyle\<rparr>,
      userEdit = Some \<lparr>editObjectName = ''fieldInput'', editText = [], placeholderText = []\<rparr>,
      outputDirEdit = Some \<lparr>editObjectName = ''fieldInput'',
        editText = (if d = [] then h @ ''/Downloads'' else d), placeholderText = []\<rparr>,
      beginButton = Some \<lparr>buttonText = ''Begin'', objectName = ''beginButton'',
        checkable = False, checked = False, styleSheet = []\<rparr>,
      modeGroup = Some \<lparr>exclusive = True, members = [ResearcherButton, AdminButton]\<rparr>,
      connections = [(ResearcherButton, SetModeResearcher), (AdminButton, SetModeAdmin)]\<rparr>"
  by (simp add: HomeWindow_new_def setupUi_def seq_def Let_def setter_defs addButton_def
      new_QPushButton_def new_QButtonGroup_def new_QLineEdit_def nullWindow_def
      setChecked_def groupOthers_def inExclusiveGroup_def setModeResearcher_def
      connect_def applyStyles_def)

lemma setModeResearcher_constructed:
  assumes "constructed w"
  shows "setModeResearcher w = Inr (w\<lparr>
      researcherButton :=
        map_option (\<lambda>x. x\<lparr>checked := True, styleSheet := researcherActiveStyle\<rparr>) (researcherButton w),
      adminButton :=
        map_option (\<lambda>x. x\<lparr>checked := False, styleSheet := inactiveStyle\<rparr>) (adminButton w)\<rparr>)"
  using assms
  by (cases w)
     (auto simp: constructed_def setModeResearcher_def seq_def setChecked_def setter_defs
        groupOthers_def inExclusiveGroup_def Let_def split: option.splits)

lemma setModeAdmin_constructed:
  assumes "constructed w"
  shows "setModeAdmin w = Inr (w\<lparr>
      researcherButton :=
        map_option (\<lambda>x. x\<lparr>checked := False, styleSheet := inactiveStyle\<rparr>) (researcherButton w),
      adminButton :=
        map_option (\<lambda>x. x\<lparr>checked := True, styleSheet := adminActiveStyle\<rparr>) (adminButton w)\<rparr>)"
  using assms
  by (cases w)
     (auto simp: constructed_def setModeAdmin_def seq_def setChecked_def setter_defs
        groupOthers_def inExclusiveGroup_def Let_def split: option.splits)

lemma constructed_new: "HomeWindow_new d h = Inr w \<Longrightarrow> constructed w"
  by (auto simp: HomeWindow_new_result constructed_def)

lemma click_researcher: "constructed w \<Longrightarrow> click ResearcherButton w = setModeResearcher w"
  by (cases w)
     (auto simp: constructed_def click_def clickedSlots_def setModeResearcher_def seq_def
        setChecked_def setter_defs groupOthers_def inExclusiveGroup_def Let_def
        split: option.splits)

lemma click_admin: "constructed w \<Longrightarrow> click AdminButton w = setModeAdmin w"
  by (cases w)
     (auto simp: constructed_def click_def clickedSlots_def setModeAdmin_def seq_def
        setChecked_def setter_defs groupOthers_def inExclusiveGroup_def Let_def
        split: option.splits)

lemma click_begin: "constructed w \<Longrightarrow> click BeginButton w = Inr w"
  by (auto simp: constructed_def click_def clickedSlots_def seq_def split: option.splits)

lemma modeCall_constructed:
  assumes "constructed w"
  shows "\<exists>w'. modeCall c w = Inr w' \<and> constructed w'"
  using assms
  by (cases c; cases w)
     (auto simp: setModeResearcher_constructed setModeAdmin_constructed constructed_def
        split: option.splits)

lemma setText_constructed:
  assumes "constructed w"
  shows "\<exists>w'. setText e t w = Inr w' \<and> constructed w'"
  using assms
  by (cases e; cases w) (auto simp: setter_defs constructed_def split: option.splits)

lemma event_constructed:
  assumes "constructed w"
  shows "\<exists>w'. event e w = Inr w' \<and> constructed w'"
proof (cases e)
  case (Click b)
  show ?thesis
  proof (cases b)
    case ResearcherButton
    with Click assms modeCall_constructed [of w SelectResearcher] show ?thesis
      by (simp add: click_researcher)
  next
    case AdminButton
    with Click assms modeCall_constructed [of w SelectAdmin] show ?thesis
      by (simp add: click_admin)
  next
    case BeginButton
    with Click assms show ?thesis by (simp add: click_begin)
  qed
next
  case (Edit f t)
  with assms setText_constructed [of w f t] show ?thesis by simp
qed

lemma reachable_constructed: "reachable w \<Longrightarrow> constructed w"
proof (induction rule: reachable.induct)
  case (reachable_new d h w)
  then show ?case by (rule constructed_new)
next
  case (reachable_event w e w')
  with event_constructed [of w e] show ?case by auto
qed

lemma uncheckAll_edits:
  "userEdit (uncheckAll bs w) = userEdit w \<and> outputDirEdit (uncheckAll bs w) = outputDirEdit w"
proof (induction bs arbitrary: w)
  case Nil
  show ?case by simp
next
  case (Cons b bs)
  show ?case by (cases b) (simp_all add: Cons.IH split: option.splits)
qed

lemma setChecked_edits:
  assumes "setChecked b c w = Inr w'"
  shows "userEdit w' = userEdit w \<and> outputDirEdit w' = outputDirEdit w"
  using assms
  by (cases b)
     (auto simp: setChecked_def Let_def uncheckAll_edits split: option.splits if_splits)

lemma setStyleSheet_edits:
  assumes "setStyleSheet b s w = Inr w'"
  shows "userEdit w' = userEdit w \<and> outputDirEdit w' = outputDirEdit w"
  using assms by (cases b) (auto simp: setter_defs split: option.splits)

lemma modeCall_edits:
  assumes "modeCall c w = Inr w'"
  shows "userEdit w' = userEdit w \<and> outputDirEdit w' = outputDirEdit w"
proof (cases c)
  case SelectResearcher
  with assms obtain w1 w2 where
    "setChecked ResearcherButton True w = Inr w1"
    "setStyleSheet ResearcherButton researcherActiveStyle w1 = Inr w2"
    "setStyleSheet AdminButton inactiveStyle w2 = Inr w'"
    by (auto simp: setModeResearcher_def seq_def split: sum.splits)
  then show ?thesis
    using setChecked_edits setStyleSheet_edits by metis
next
  case SelectAdmin
  with assms obtain w1 w2 where
    "setChecked AdminButton True w = Inr w1"
    "setStyleSheet AdminButton adminActiveStyle w1 = Inr w2"
    "setStyleSheet ResearcherButton inactiveStyle w2 = Inr w'"
    by (auto simp: setModeAdmin_def seq_def split: sum.splits)
  then show ?thesis
    using setChecked_edits setStyleSheet_edits by metis
qed

lemma setText_buttons:
  assumes "setText e t w = Inr w'"
  shows "researcherButton w' = researcherButton w \<and> adminButton w' = adminButton w \<and>
         beginButton w' = beginButton w"
  using assms by (cases e) (auto simp: setter_defs split: option.splits)

lemma seq_Inr [simp]: "seq (Inr x) f = f x"
  by (simp add: seq_def)

lemma seq_return [simp]: "seq m Inr = m"
  by (simp add: seq_def split: sum.splits)

lemma modeCall_view:
  assumes "constructed w"
  shows "\<exists>w'. modeCall c w = Inr w' \<and> constructed w' \<and> exactlyOneActive w' \<and>
           modeView w' = viewAfter c"
  using assms
  by (cases c; cases w)
     (auto simp: setModeResearcher_constructed setModeAdmin_constructed constructed_def
        exactlyOneActive_def markedActive_def markedInactive_def modeView_def mode_def
        styles_distinct split: option.splits)

lemma modeCall_overwrites:
  assumes "constructed w" and "modeCall c w = Inr w1"
  shows "modeCall c' w1 = modeCall c' w"
proof -
  from modeCall_view [OF assms(1), of c] assms(2) have c1: "constructed w1" by auto
  from assms c1 show ?thesis
    by (cases c; cases c'; cases w)
       (auto simp: setModeResearcher_constructed setModeAdmin_constructed constructed_def
          split: option.splits)
qed

lemma modeCalls_last:
  assumes "constructed w" and "cs \<noteq> []"
  shows "modeCalls cs w = modeCall (last cs) w"
  using assms
proof (induction cs arbitrary: w)
  case Nil
  then show ?case by simp
next
  case (Cons c cs)
  from modeCall_view [OF Cons.prems(1), of c] obtain w1 where
    w1: "modeCall c w = Inr w1" "constructed w1" by blast
  show ?case
  proof (cases "cs = []")
    case True
    with w1(1) show ?thesis by simp
  next
    case False
    with Cons.IH [OF w1(2)] have "modeCalls cs w1 = modeCall (last cs) w1" by simp
    also have "\<dots> = modeCall (last cs) w"
      by (rule modeCall_overwrites [OF Cons.prems(1) w1(1)])
    finally show ?thesis using False w1(1) by simp
  qed
qed

lemma events_constructed:
  assumes "constructed w"
  shows "\<exists>w'. events es w = Inr w' \<and> constructed w'"
  using assms
proof (induction es arbitrary: w)
  case Nil
  then show ?case by simp
next
  case (Cons e es)
  from event_constructed [OF Cons.prems, of e] obtain w1 where
    "event e w = Inr w1" "constructed w1" by blast
  with Cons.IH [of w1] show ?case by simp
qed

lemma handsOver_nothing: "handsOver e w = []"
proof (cases e)
  case (Click b)
  have "slotHandsOver s w = []" for s by (cases s) simp_all
  with Click show ?thesis by simp
next
  case (Edit f t)
  then show ?thesis by simp
qed

lemma handedOverFrom_nothing: "handedOverFrom es w = []"
  by (induction es arbitrary: w) (simp_all add: handsOver_nothing split: sum.splits)

lemma runSlots_edits:
  assumes "runSlots ss w = Inr w'"
  shows "userEdit w' = userEdit w \<and> outputDirEdit w' = outputDirEdit w"
  using assms
proof (induction ss arbitrary: w)
  case Nil
  then show ?case by simp
next
  case (Cons s ss)
  from Cons.prems obtain w1 where w1: "runSlot s w = Inr w1" "runSlots ss w1 = Inr w'"
    by (auto simp: seq_def split: sum.splits)
  have "userEdit w1 = userEdit w \<and> outputDirEdit w1 = outputDirEdit w"
  proof (cases s)
    case SetModeResearcher
    with w1(1) modeCall_edits [of SelectResearcher w w1] show ?thesis by simp
  next
    case SetModeAdmin
    with w1(1) modeCall_edits [of SelectAdmin w w1] show ?thesis by simp
  qed
  with Cons.IH [OF w1(2)] show ?case by simp
qed

lemma click_edits:
  assumes "click b w = Inr w'"
  shows "userEdit w' = userEdit w \<and> outputDirEdit w' = outputDirEdit w"
proof -
  from assms obtain x where x: "button b w = Some x"
    by (auto simp: click_def split: option.splits)
  with assms obtain w1 where
    w1: "(if checkable x then setChecked b (\<not> checked x) w else Inr w) = Inr w1"
      "runSlots (clickedSlots b w1) w1 = Inr w'"
    by (cases "if checkable x then setChecked b (\<not> checked x) w else Inr w")
       (simp_all add: click_def seq_def)
  from w1(1) have "userEdit w1 = userEdit w \<and> outputDirEdit w1 = outputDirEdit w"
    using setChecked_edits [of b "\<not> checked x" w w1] by (auto split: if_splits)
  with runSlots_edits [OF w1(2)] show ?thesis by simp
qed

lemma run_two_edits:
  "run d h [Edit UserEdit u, Edit OutputDirEdit out] = Inr w \<Longrightarrow>
   constructed w \<and> formState w = (Some Researcher, Some u, Some out)"
  by (auto simp: run_def HomeWindow_new_result setter_defs constructed_def formState_def
      mode_def userName_def outputDirectory_def)

lemma view_exactlyOneActive:
  assumes "modeView w = viewAfter c"
  shows "exactlyOneActive w \<and>
         \<not> (markedActive (researcherButton w) \<and> markedActive (adminButton w)) \<and>
         (mode w = Some Researcher \<or> mode w = Some Admin)"
  using assms
  by (cases c)
     (auto simp: modeView_def mode_def exactlyOneActive_def markedActive_def
        markedInactive_def styles_distinct split: option.splits if_splits)

section \<open>The claims\<close>

text \<open>
  Claim C3. Immediately after construction the mode is Researcher: the Researcher button is
  checked and carries its green style sheet, the Admin button is unchecked and carries the
  grey one. This holds whatever the two platform lookups return.
\<close>

theorem initial_mode_researcher:
  "\<exists>w. HomeWindow_new d h = Inr w \<and> mode w = Some Researcher \<and>
       map_option checked (researcherButton w) = Some True \<and>
       map_option styleSheet (researcherButton w) = Some researcherActiveStyle \<and>
       markedActive (researcherButton w) \<and>
       map_option checked (adminButton w) = Some False \<and>
       map_option styleSheet (adminButton w) = Some inactiveStyle \<and>
       markedInactive (adminButton w)"
  by (simp add: HomeWindow_new_result mode_def markedActive_def markedInactive_def
      styles_distinct)

theorem initial_mode_researcher_witness:
  "\<exists>w. HomeWindow_new ''/home/u/Downloads'' ''/home/u'' = Inr w \<and> mode w = Some Researcher \<and>
       map_option checked (researcherButton w) = Some True \<and>
       map_option styleSheet (researcherButton w) = Some researcherActiveStyle \<and>
       markedActive (researcherButton w) \<and>
       map_option checked (adminButton w) = Some False \<and>
       map_option styleSheet (adminButton w) = Some inactiveStyle \<and>
       markedInactive (adminButton w)"
  by (rule initial_mode_researcher)

text \<open>
  Claim C4. Immediately after construction the output directory is the platform's download
  location when that lookup is not empty, and the home path followed by
  \<^verbatim>\<open>/Downloads\<close> when it is.
\<close>

theorem initial_outputDirectory:
  "\<exists>w. HomeWindow_new d h = Inr w \<and>
       (d \<noteq> [] \<longrightarrow> outputDirectory w = Some d) \<and>
       (d = [] \<longrightarrow> outputDirectory w = Some (h @ ''/Downloads''))"
  by (simp add: HomeWindow_new_result outputDirectory_def)

theorem initial_outputDirectory_witness:
  "map_sum id outputDirectory (HomeWindow_new ''/data/dl'' ''/home/u'') = Inr (Some ''/data/dl'') \<and>
   map_sum id outputDirectory (HomeWindow_new [] ''/home/u'') = Inr (Some ''/home/u/Downloads'')"
  using initial_outputDirectory [of "''/data/dl''" "''/home/u''"]
    initial_outputDirectory [of "[]" "''/home/u''"]
  by auto

text \<open>
  Claim C10. Construction reads the platform through two lookups only. On any two
  platforms that give the same download location and the same home path, however they
  differ in every other standard location and in anything else they hold, both
  constructions succeed and give the same form state: the mode Researcher, an empty user
  name, and the output directory computed from the two lookups.
\<close>

theorem construction_reads_two_lookups:
  fixes p1 :: "'a Platform_scheme" and p2 :: "'b Platform_scheme"
  assumes "writableLocation p1 DownloadLocation = writableLocation p2 DownloadLocation"
    and "homePath p1 = homePath p2"
  shows "\<exists>w1 w2. HomeWindow_on p1 = Inr w1 \<and> HomeWindow_on p2 = Inr w2 \<and>
           mode w1 = mode w2 \<and> userName w1 = userName w2 \<and>
           outputDirectory w1 = outputDirectory w2 \<and> formState w1 = formState w2 \<and>
           formState w1 =
             (Some Researcher, Some [],
              Some (if writableLocation p1 DownloadLocation = []
                    then homePath p1 @ ''/Downloads''
                    else writableLocation p1 DownloadLocation))"
  using assms
  by (simp add: HomeWindow_on_def HomeWindow_new_result formState_def mode_def userName_def
      outputDirectory_def)

theorem construction_reads_two_lookups_witness:
  "writableLocation
     \<lparr>writableLocation = (\<lambda>l. if l = DownloadLocation then [] else ''/mnt/a''),
      homePath = ''/home/u''\<rparr> DownloadLocation =
   writableLocation
     \<lparr>writableLocation = (\<lambda>l. if l = DownloadLocation then [] else ''/mnt/b''),
      homePath = ''/home/u'', \<dots> = True\<rparr> DownloadLocation \<and>
   homePath
     \<lparr>writableLocation = (\<lambda>l. if l = DownloadLocation then [] else ''/mnt/a''),
      homePath = ''/home/u''\<rparr> =
   homePath
     \<lparr>writableLocation = (\<lambda>l. if l = DownloadLocation then [] else ''/mnt/b''),
      homePath = ''/home/u'', \<dots> = True\<rparr> \<and>
   writableLocation
     \<lparr>writableLocation = (\<lambda>l. if l = DownloadLocation then [] else ''/mnt/a''),
      homePath = ''/home/u''\<rparr> DesktopLocation \<noteq>
   writableLocation
     \<lparr>writableLocation = (\<lambda>l. if l = DownloadLocation then [] else ''/mnt/b''),
      homePath = ''/home/u'', \<dots> = True\<rparr> DesktopLocation \<and>
   map_sum id formState
     (HomeWindow_on
        \<lparr>writableLocation = (\<lambda>l. if l = DownloadLocation then [] else ''/mnt/a''),
         homePath = ''/home/u''\<rparr>) =
   map_sum id formState
     (HomeWindow_on
        \<lparr>writableLocation = (\<lambda>l. if l = DownloadLocation then [] else ''/mnt/b''),
         homePath = ''/home/u'', \<dots> = True\<rparr>) \<and>
   map_sum id formState
     (HomeWindow_on
        \<lparr>writableLocation = (\<lambda>l. if l = DownloadLocation then [] else ''/mnt/a''),
         homePath = ''/home/u''\<rparr>) =
   Inr (Some Researcher, Some [], Some ''/home/u/Downloads'')"
proof -
  let ?p1 = "\<lparr>writableLocation = (\<lambda>l. if l = DownloadLocation then [] else ''/mnt/a''),
      homePath = ''/home/u''\<rparr>"
  let ?p2 = "\<lparr>writableLocation = (\<lambda>l. if l = DownloadLocation then [] else ''/mnt/b''),
      homePath = ''/home/u'', \<dots> = True\<rparr>"
  have d: "writableLocation ?p1 DownloadLocation = writableLocation ?p2 DownloadLocation"
    and h: "homePath ?p1 = homePath ?p2"
    and n: "writableLocation ?p1 DesktopLocation \<noteq> writableLocation ?p2 DesktopLocation"
    by simp_all
  from construction_reads_two_lookups [OF d h] obtain w1 w2 where
    "HomeWindow_on ?p1 = Inr w1" "HomeWindow_on ?p2 = Inr w2" "formState w1 = formState w2"
    "formState w1 = (Some Researcher, Some [], Some ''/home/u/Downloads'')"
    by auto
  with d h n show ?thesis by simp
qed

text \<open>
  Claim C7. On every constructed window, whatever was selected before,
  \<^verbatim>\<open>setModeAdmin\<close> returns, and so does a click on the Admin button with the same
  result: the mode is Admin, the Admin button is checked and carries its red style sheet,
  which differs from the Researcher button's green one, and the Researcher button is
  unchecked and grey.
\<close>

theorem selectAdminMode_effect:
  assumes "constructed w"
  shows "\<exists>w'. setModeAdmin w = Inr w' \<and> click AdminButton w = Inr w' \<and>
           mode w' = Some Admin \<and>
           map_option checked (adminButton w') = Some True \<and>
           map_option styleSheet (adminButton w') = Some adminActiveStyle \<and>
           markedActive (adminButton w') \<and>
           adminActiveStyle \<noteq> researcherActiveStyle \<and>
           map_option checked (researcherButton w') = Some False \<and>
           map_option styleSheet (researcherButton w') = Some inactiveStyle \<and>
           markedInactive (researcherButton w')"
  using assms
  by (cases w)
     (auto simp: click_admin setModeAdmin_constructed constructed_def mode_def
        markedActive_def markedInactive_def styles_distinct split: option.splits)

theorem selectAdminMode_effect_witness:
  "constructed (projr (HomeWindow_new [] ''/home/u'')) \<and>
   (\<exists>w'. setModeAdmin (projr (HomeWindow_new [] ''/home/u'')) = Inr w' \<and>
           click AdminButton (projr (HomeWindow_new [] ''/home/u'')) = Inr w' \<and>
           mode w' = Some Admin \<and>
           map_option checked (adminButton w') = Some True \<and>
           map_option styleSheet (adminButton w') = Some adminActiveStyle \<and>
           markedActive (adminButton w') \<and>
           adminActiveStyle \<noteq> researcherActiveStyle \<and>
           map_option checked (researcherButton w') = Some False \<and>
           map_option styleSheet (researcherButton w') = Some inactiveStyle \<and>
           markedInactive (researcherButton w'))"
proof -
  have c: "constructed (projr (HomeWindow_new [] ''/home/u''))"
    by (simp add: HomeWindow_new_result constructed_def)
  from c selectAdminMode_effect [OF c] show ?thesis by (rule conjI)
qed

text \<open>
  Claim C2. After construction and any sequence of calls of \<^verbatim>\<open>setModeResearcher\<close>
  and \<^verbatim>\<open>setModeAdmin\<close>, every call returns and exactly one of the two mode
  buttons is marked active: one is checked with its coloured style sheet, the other is
  unchecked and grey, and the two are never both marked active. Every prefix of a sequence
  of calls is such a sequence, so this holds after each call.
\<close>

theorem exactly_one_mode_active:
  "\<exists>w0 w. HomeWindow_new d h = Inr w0 \<and> modeCalls cs w0 = Inr w \<and>
          exactlyOneActive w \<and>
          \<not> (markedActive (researcherButton w) \<and> markedActive (adminButton w)) \<and>
          (mode w = Some Researcher \<or> mode w = Some Admin) \<and>
          (modeView w = viewAfter SelectResearcher \<or> modeView w = viewAfter SelectAdmin)"
proof -
  obtain w0 where w0: "HomeWindow_new d h = Inr w0"
    by (simp add: HomeWindow_new_result)
  then have c: "constructed w0" by (rule constructed_new)
  have "\<exists>w c. modeCalls cs w0 = Inr w \<and> modeView w = viewAfter c"
  proof (cases "cs = []")
    case True
    from w0 have "modeView w0 = viewAfter SelectResearcher"
      by (auto simp: HomeWindow_new_result modeView_def mode_def)
    with True
    have "modeCalls cs w0 = Inr w0 \<and> modeView w0 = viewAfter SelectResearcher" by simp
    then show ?thesis by blast
  next
    case False
    with modeCalls_last [OF c, of cs] modeCall_view [OF c, of "last cs"] show ?thesis
      by auto
  qed
  then obtain w c where w: "modeCalls cs w0 = Inr w" "modeView w = viewAfter c" by blast
  from w(2) have "modeView w = viewAfter SelectResearcher \<or> modeView w = viewAfter SelectAdmin"
    by (cases c) simp_all
  with w0 w(1) view_exactlyOneActive [OF w(2)] show ?thesis by blast
qed

theorem exactly_one_mode_active_witness:
  "\<exists>w0 w. HomeWindow_new [] ''/home/u'' = Inr w0 \<and>
          modeCalls [SelectAdmin, SelectAdmin, SelectResearcher, SelectAdmin] w0 = Inr w \<and>
          exactlyOneActive w \<and>
          \<not> (markedActive (researcherButton w) \<and> markedActive (adminButton w)) \<and>
          (mode w = Some Researcher \<or> mode w = Some Admin) \<and>
          (modeView w = viewAfter SelectResearcher \<or> modeView w = viewAfter SelectAdmin)"
  by (rule exactly_one_mode_active)

text \<open>
  Claim C9. Mode selection depends on the last call only. On a constructed window a
  non-empty sequence of mode calls gives the window that its last call alone gives; two
  sequences with the same last call, run on any two constructed windows, leave the same
  mode and the same style sheets on the two mode buttons; and the same call twice in a
  row gives what one call gives.
\<close>

theorem mode_selection_last_call_wins:
  assumes "constructed w1" and "constructed w2"
    and "cs1 \<noteq> []" and "cs2 \<noteq> []" and "last cs1 = last cs2"
  shows "modeCalls cs1 w1 = modeCall (last cs1) w1 \<and>
         (\<exists>v1 v2. modeCalls cs1 w1 = Inr v1 \<and> modeCalls cs2 w2 = Inr v2 \<and>
                   modeView v1 = viewAfter (last cs1) \<and> modeView v2 = modeView v1) \<and>
         modeCalls (cs @ [c, c]) w1 = modeCalls (cs @ [c]) w1"
proof -
  have l1: "modeCalls cs1 w1 = modeCall (last cs1) w1"
    by (rule modeCalls_last [OF assms(1,3)])
  have l2: "modeCalls cs2 w2 = modeCall (last cs1) w2"
    using modeCalls_last [OF assms(2,4)] assms(5) by simp
  from modeCall_view [OF assms(1), of "last cs1"] modeCall_view [OF assms(2), of "last cs1"]
  have v: "\<exists>v1 v2. modeCalls cs1 w1 = Inr v1 \<and> modeCalls cs2 w2 = Inr v2 \<and>
                   modeView v1 = viewAfter (last cs1) \<and> modeView v2 = modeView v1"
    unfolding l1 l2 by auto
  have "modeCalls (cs @ [c, c]) w1 = modeCall c w1"
    using modeCalls_last [OF assms(1), of "cs @ [c, c]"] by simp
  moreover have "modeCalls (cs @ [c]) w1 = modeCall c w1"
    using modeCalls_last [OF assms(1), of "cs @ [c]"] by simp
  ultimately show ?thesis using l1 v by simp
qed

theorem mode_selection_last_call_wins_witness:
  "constructed (projr (HomeWindow_new [] ''/home/u'')) \<and>
   constructed (projr (setModeAdmin (projr (HomeWindow_new [] ''/home/u'')))) \<and>
   [SelectAdmin, SelectResearcher] \<noteq> [] \<and> [SelectResearcher] \<noteq> [] \<and>
   last [SelectAdmin, SelectResearcher] = last [SelectResearcher] \<and>
   modeCalls [SelectAdmin, SelectResearcher] (projr (HomeWindow_new [] ''/home/u'')) =
     modeCall (last [SelectAdmin, SelectResearcher]) (projr (HomeWindow_new [] ''/home/u'')) \<and>
   (\<exists>v1 v2. modeCalls [SelectAdmin, SelectResearcher] (projr (HomeWindow_new [] ''/home/u'')) = Inr v1 \<and>
      modeCalls [SelectResearcher] (projr (setModeAdmin (projr (HomeWindow_new [] ''/home/u'')))) = Inr v2 \<and>
      modeView v1 = viewAfter (last [SelectAdmin, SelectResearcher]) \<and> modeView v2 = modeView v1) \<and>
   modeCalls ([SelectResearcher] @ [SelectAdmin, SelectAdmin]) (projr (HomeWindow_new [] ''/home/u'')) =
     modeCalls ([SelectResearcher] @ [SelectAdmin]) (projr (HomeWindow_new [] ''/home/u''))"
proof -
  have c1: "constructed (projr (HomeWindow_new [] ''/home/u''))"
    by (simp add: HomeWindow_new_result constructed_def)
  have c2: "constructed (projr (setModeAdmin (projr (HomeWindow_new [] ''/home/u''))))"
    using modeCall_view [OF c1, of SelectAdmin] by auto
  have n1: "[SelectAdmin, SelectResearcher] \<noteq> []" and n2: "[SelectResearcher] \<noteq> []"
    and l: "last [SelectAdmin, SelectResearcher] = last [SelectResearcher]"
    by simp_all
  from mode_selection_last_call_wins [OF c1 c2 n1 n2 l, of "[SelectResearcher]" SelectAdmin]
    c1 c2 n1 n2 l
  show ?thesis by blast
qed

text \<open>
  Claim C5. In every state, an edit of either line edit that returns leaves the mode and
  both mode buttons as they were, and a mode call or a click on any button that returns
  leaves the user name and the output directory as they were. On a constructed window all
  of them return.
\<close>

theorem fields_and_mode_independent:
  "(event (Edit e t) w = Inr w' \<longrightarrow>
      mode w' = mode w \<and> researcherButton w' = researcherButton w \<and>
      adminButton w' = adminButton w) \<and>
   (modeCall c w = Inr w' \<longrightarrow>
      userName w' = userName w \<and> outputDirectory w' = outputDirectory w) \<and>
   (event (Click b) w = Inr w' \<longrightarrow>
      userName w' = userName w \<and> outputDirectory w' = outputDirectory w) \<and>
   (constructed w \<longrightarrow>
      (\<exists>v. event (Edit e t) w = Inr v) \<and> (\<exists>v. modeCall c w = Inr v) \<and>
      (\<exists>v. event (Click b) w = Inr v))"
proof -
  have "mode w' = mode w \<and> researcherButton w' = researcherButton w \<and>
      adminButton w' = adminButton w" if "event (Edit e t) w = Inr w'"
    using setText_buttons [of e t w w'] that by (simp add: mode_def)
  moreover have "userName w' = userName w \<and> outputDirectory w' = outputDirectory w"
    if "modeCall c w = Inr w'"
    using modeCall_edits [OF that] by (simp add: userName_def outputDirectory_def)
  moreover have "userName w' = userName w \<and> outputDirectory w' = outputDirectory w"
    if "event (Click b) w = Inr w'"
    using click_edits [of b w w'] that by (simp add: userName_def outputDirectory_def)
  moreover have "(\<exists>v. event (Edit e t) w = Inr v) \<and> (\<exists>v. modeCall c w = Inr v) \<and>
      (\<exists>v. event (Click b) w = Inr v)" if "constructed w"
    using event_constructed [OF that, of "Edit e t"] event_constructed [OF that, of "Click b"]
      modeCall_constructed [OF that, of c]
    by blast
  ultimately show ?thesis by blast
qed

theorem fields_and_mode_independent_witness:
  "constructed (projr (HomeWindow_new [] ''/home/u'')) \<and>
   map_sum id mode (event (Edit UserEdit ''alice'') (projr (HomeWindow_new [] ''/home/u'')))
     = Inr (Some Researcher) \<and>
   map_sum id mode (event (Edit OutputDirEdit ''/tmp/out'') (projr (HomeWindow_new [] ''/home/u'')))
     = Inr (Some Researcher) \<and>
   map_sum id userName (modeCall SelectAdmin (projr (HomeWindow_new [] ''/home/u'')))
     = Inr (Some []) \<and>
   map_sum id outputDirectory (modeCall SelectAdmin (projr (HomeWindow_new [] ''/home/u'')))
     = Inr (Some ''/home/u/Downloads'') \<and>
   map_sum id outputDirectory (event (Click AdminButton) (projr (HomeWindow_new [] ''/home/u'')))
     = Inr (Some ''/home/u/Downloads'')"
proof -
  let ?w = "projr (HomeWindow_new [] ''/home/u'')"
  have c: "constructed ?w"
    by (simp add: HomeWindow_new_result constructed_def)
  have i: "mode ?w = Some Researcher" "userName ?w = Some []"
    "outputDirectory ?w = Some ''/home/u/Downloads''"
    by (simp_all add: HomeWindow_new_result mode_def userName_def outputDirectory_def)
  from event_constructed [OF c, of "Edit UserEdit ''alice''"] obtain v1 where
    v1: "event (Edit UserEdit ''alice'') ?w = Inr v1" by blast
  from event_constructed [OF c, of "Edit OutputDirEdit ''/tmp/out''"] obtain v2 where
    v2: "event (Edit OutputDirEdit ''/tmp/out'') ?w = Inr v2" by blast
  from modeCall_constructed [OF c, of SelectAdmin] obtain v3 where
    v3: "modeCall SelectAdmin ?w = Inr v3" by blast
  from event_constructed [OF c, of "Click AdminButton"] obtain v4 where
    v4: "event (Click AdminButton) ?w = Inr v4" by blast
  from fields_and_mode_independent [of UserEdit "''alice''" ?w v1] v1
  have "mode v1 = mode ?w" by blast
  moreover from fields_and_mode_independent [of OutputDirEdit "''/tmp/out''" ?w v2] v2
  have "mode v2 = mode ?w" by blast
  moreover from fields_and_mode_independent [of _ _ ?w v3 SelectAdmin] v3
  have "userName v3 = userName ?w \<and> outputDirectory v3 = outputDirectory ?w" by blast
  moreover from fields_and_mode_independent [of _ _ ?w v4 _ AdminButton] v4
  have "outputDirectory v4 = outputDirectory ?w" by blast
  ultimately show ?thesis using c i v1 v2 v3 v4 by simp
qed

text \<open>
  Claim C6. No operation fails. The constructor returns for all platform lookups, and in
  every reachable window every event returns a window: a click on the Researcher or Admin
  button, a click on Begin, an edit of either line edit, with any text. So do direct calls
  of the two mode functions, and every sequence of events.
\<close>

theorem operations_total:
  assumes "reachable w"
  shows "(\<exists>w0. HomeWindow_new d h = Inr w0 \<and> reachable w0) \<and>
         (\<exists>w'. event e w = Inr w' \<and> reachable w') \<and>
         (\<exists>w'. modeCall c w = Inr w') \<and>
         (\<exists>w'. events es w = Inr w') \<and>
         (\<exists>w'. run d h es = Inr w')"
proof -
  from assms have c: "constructed w" by (rule reachable_constructed)
  have n: "\<exists>w0. HomeWindow_new d h = Inr w0 \<and> reachable w0"
    using reachable_new [of d h] by (simp add: HomeWindow_new_result)
  then obtain w0 where w0: "HomeWindow_new d h = Inr w0" "constructed w0"
    using reachable_constructed by blast
  from event_constructed [OF c, of e] obtain w1 where w1: "event e w = Inr w1" by blast
  with assms have "reachable w1" by (rule reachable_event)
  with w1 have "\<exists>w'. event e w = Inr w' \<and> reachable w'" by blast
  moreover from events_constructed [OF w0(2), of es] w0(1) have "\<exists>w'. run d h es = Inr w'"
    by (auto simp: run_def)
  ultimately show ?thesis
    using n modeCall_constructed [OF c, of c] events_constructed [OF c, of es] by blast
qed

theorem operations_total_witness:
  "reachable (projr (HomeWindow_new [] ''/home/u'')) \<and>
   (\<exists>w0. HomeWindow_new ''/data/dl'' ''/home/u'' = Inr w0 \<and> reachable w0) \<and>
   (\<exists>w'. event (Click BeginButton) (projr (HomeWindow_new [] ''/home/u'')) = Inr w' \<and> reachable w') \<and>
   (\<exists>w'. modeCall SelectAdmin (projr (HomeWindow_new [] ''/home/u'')) = Inr w') \<and>
   (\<exists>w'. events [Click AdminButton, Edit UserEdit ''alice'', Click BeginButton]
            (projr (HomeWindow_new [] ''/home/u'')) = Inr w') \<and>
   (\<exists>w'. run ''/data/dl'' ''/home/u'' [Click AdminButton, Edit UserEdit ''alice'', Click BeginButton] = Inr w')"
proof -
  have "HomeWindow_new [] ''/home/u'' = Inr (projr (HomeWindow_new [] ''/home/u''))"
    by (simp add: HomeWindow_new_result)
  then have r: "reachable (projr (HomeWindow_new [] ''/home/u''))" by (rule reachable_new)
  from r operations_total [OF r] show ?thesis by (rule conjI)
qed

text \<open>
  Claim C8. The user name is empty after construction. Afterwards an edit of the user
  field stores exactly the text entered, whatever it is, and no other operation (an edit
  of the output directory, a click on any button, a mode call) changes the user name.
\<close>

theorem userName_empty_then_untouched:
  assumes "constructed w"
  shows "(\<exists>w0. HomeWindow_new d h = Inr w0 \<and> userName w0 = Some []) \<and>
         (\<exists>w'. event (Edit UserEdit t) w = Inr w' \<and> userName w' = Some t) \<and>
         (\<exists>w'. event (Edit OutputDirEdit t) w = Inr w' \<and> userName w' = userName w) \<and>
         (\<exists>w'. event (Click b) w = Inr w' \<and> userName w' = userName w) \<and>
         (\<exists>w'. modeCall c w = Inr w' \<and> userName w' = userName w)"
proof -
  have "\<exists>w0. HomeWindow_new d h = Inr w0 \<and> userName w0 = Some []"
    by (simp add: HomeWindow_new_result userName_def)
  moreover from assms have "\<exists>w'. event (Edit UserEdit t) w = Inr w' \<and> userName w' = Some t"
    by (cases w) (auto simp: constructed_def setter_defs userName_def split: option.splits)
  moreover from assms
  have "\<exists>w'. event (Edit OutputDirEdit t) w = Inr w' \<and> userName w' = userName w"
    by (cases w) (auto simp: constructed_def setter_defs userName_def split: option.splits)
  moreover have "\<exists>w'. event (Click b) w = Inr w' \<and> userName w' = userName w"
    using event_constructed [OF assms, of "Click b"] click_edits [of b w]
    by (auto simp: userName_def)
  moreover have "\<exists>w'. modeCall c w = Inr w' \<and> userName w' = userName w"
    using modeCall_constructed [OF assms, of c] modeCall_edits [of c w]
    by (auto simp: userName_def)
  ultimately show ?thesis by blast
qed

theorem userName_empty_then_untouched_witness:
  "constructed (projr (HomeWindow_new [] ''/home/u'')) \<and>
   (\<exists>w0. HomeWindow_new [] ''/home/u'' = Inr w0 \<and> userName w0 = Some []) \<and>
   (\<exists>w'. event (Edit UserEdit '' a b!'') (projr (HomeWindow_new [] ''/home/u'')) = Inr w' \<and>
      userName w' = Some '' a b!'') \<and>
   (\<exists>w'. event (Edit OutputDirEdit '' a b!'') (projr (HomeWindow_new [] ''/home/u'')) = Inr w' \<and>
      userName w' = userName (projr (HomeWindow_new [] ''/home/u''))) \<and>
   (\<exists>w'. event (Click BeginButton) (projr (HomeWindow_new [] ''/home/u'')) = Inr w' \<and>
      userName w' = userName (projr (HomeWindow_new [] ''/home/u''))) \<and>
   (\<exists>w'. modeCall SelectAdmin (projr (HomeWindow_new [] ''/home/u'')) = Inr w' \<and>
      userName w' = userName (projr (HomeWindow_new [] ''/home/u'')))"
proof -
  have c: "constructed (projr (HomeWindow_new [] ''/home/u''))"
    by (simp add: HomeWindow_new_result constructed_def)
  from c userName_empty_then_untouched [OF c] show ?thesis by (rule conjI)
qed

text \<open>
  Claim C1, as stated, fails. In the run that constructs the window, enters
  \<^verbatim>\<open>alice\<close> and \<^verbatim>\<open>/tmp/out\<close> and clicks Begin, the form state before the
  click is (Researcher, alice, /tmp/out), but no slot is connected to the Begin button, so
  the click runs no code of the window and nothing is handed to a collaborator.
\<close>

theorem submit_delivers_nothing:
  "map_sum id formState
     (run [] ''/home/u'' [Edit UserEdit ''alice'', Edit OutputDirEdit ''/tmp/out''])
     = Inr (Some Researcher, Some ''alice'', Some ''/tmp/out'') \<and>
   map_sum id (clickedSlots BeginButton)
     (run [] ''/home/u'' [Edit UserEdit ''alice'', Edit OutputDirEdit ''/tmp/out''])
     = Inr [] \<and>
   (Some Researcher, Some ''alice'', Some ''/tmp/out'') \<notin>
     set (handedOver [] ''/home/u''
            [Edit UserEdit ''alice'', Edit OutputDirEdit ''/tmp/out'', Click BeginButton]) \<and>
   handedOver [] ''/home/u''
     [Edit UserEdit ''alice'', Edit OutputDirEdit ''/tmp/out'', Click BeginButton] = []"
  by (simp add: run_def handedOver_def HomeWindow_new_result setter_defs formState_def
      mode_def userName_def outputDirectory_def clickedSlots_def click_def)

text \<open>
  Claim C1, amended. A click on Begin runs no slot, leaves the constructed window exactly
  as it was (mode, user name and output directory included) and hands nothing over; no run
  of the program hands anything over. After entering a user name and an output directory
  in the initial mode the form state is (Researcher, that name, that directory), before and
  after a click on Begin.
\<close>

theorem begin_click_changes_nothing:
  assumes "constructed w"
  shows "clickedSlots BeginButton w = [] \<and>
         event (Click BeginButton) w = Inr w \<and>
         handsOver (Click BeginButton) w = [] \<and>
         handedOver d h es = [] \<and>
         (\<exists>v. run d h [Edit UserEdit u, Edit OutputDirEdit out] = Inr v \<and>
              formState v = (Some Researcher, Some u, Some out) \<and>
              run d h [Edit UserEdit u, Edit OutputDirEdit out, Click BeginButton] = Inr v)"
proof -
  from assms have "clickedSlots BeginButton w = []"
    by (simp add: constructed_def clickedSlots_def)
  moreover from assms have "event (Click BeginButton) w = Inr w"
    by (simp add: click_begin)
  moreover have "handedOver d h es = []"
    by (simp add: handedOver_def handedOverFrom_nothing split: sum.splits)
  moreover have "\<exists>v. run d h [Edit UserEdit u, Edit OutputDirEdit out] = Inr v \<and>
              formState v = (Some Researcher, Some u, Some out) \<and>
              run d h [Edit UserEdit u, Edit OutputDirEdit out, Click BeginButton] = Inr v"
  proof -
    obtain w0 where w0: "HomeWindow_new d h = Inr w0" "constructed w0"
      using constructed_new [of d h] by (simp add: HomeWindow_new_result)
    from events_constructed [OF w0(2), of "[Edit UserEdit u, Edit OutputDirEdit out]"] w0(1)
    obtain v where v: "run d h [Edit UserEdit u, Edit OutputDirEdit out] = Inr v"
      by (auto simp: run_def)
    from run_two_edits [OF v] have cv: "constructed v"
      and fv: "formState v = (Some Researcher, Some u, Some out)" by simp_all
    from v obtain v1 where v1: "event (Edit UserEdit u) w0 = Inr v1"
      "event (Edit OutputDirEdit out) v1 = Inr v"
      using w0(1) by (auto simp: run_def seq_def split: sum.splits)
    have "run d h [Edit UserEdit u, Edit OutputDirEdit out, Click BeginButton] = Inr v"
      using w0(1) v1 click_begin [OF cv] by (simp add: run_def)
    with v fv show ?thesis by blast
  qed
  ultimately show ?thesis by (simp add: handsOver_nothing)
qed

theorem begin_click_changes_nothing_witness:
  "constructed (projr (run [] ''/home/u'' [Edit UserEdit ''alice'', Edit OutputDirEdit ''/tmp/out''])) \<and>
   clickedSlots BeginButton
     (projr (run [] ''/home/u'' [Edit UserEdit ''alice'', Edit OutputDirEdit ''/tmp/out''])) = [] \<and>
   event (Click BeginButton)
     (projr (run [] ''/home/u'' [Edit UserEdit ''alice'', Edit OutputDirEdit ''/tmp/out'']))
     = Inr (projr (run [] ''/home/u'' [Edit UserEdit ''alice'', Edit OutputDirEdit ''/tmp/out''])) \<and>
   handedOver [] ''/home/u''
     [Edit UserEdit ''alice'', Edit OutputDirEdit ''/tmp/out'', Click BeginButton] = [] \<and>
   map_sum id formState
     (run [] ''/home/u'' [Edit UserEdit ''alice'', Edit OutputDirEdit ''/tmp/out'', Click BeginButton])
     = Inr (Some Researcher, Some ''alice'', Some ''/tmp/out'')"
proof -
  let ?w = "projr (run [] ''/home/u'' [Edit UserEdit ''alice'', Edit OutputDirEdit ''/tmp/out''])"
  have c: "constructed ?w"
    by (simp add: run_def HomeWindow_new_result setter_defs constructed_def)
  from begin_click_changes_nothing [OF c, of "[]" "''/home/u''"
      "[Edit UserEdit ''alice'', Edit OutputDirEdit ''/tmp/out'', Click BeginButton]"
      "''alice''" "''/tmp/out''"] c
  show ?thesis by auto
qed

end
